theory Spec2Isabelle
  imports Complex_Main "HOL-Library.Sublist"
begin

section \<open>JavaScript values used by the feed filter\<close>

text \<open>
  Strings are lists of code units. The model covers the code units below 256 (ISO-8859-1),
  which is what an Isabelle \<^typ>\<open>char\<close> holds; on that range \<open>toLowerCase\<close>, \<open>trim\<close> and
  \<open>parseInt\<close> work unit by unit as written below.
\<close>

definition code_unit :: "char \<Rightarrow> nat" where
  "code_unit c = of_char c"

text \<open>\<open>String.prototype.toLowerCase\<close>: A-Z and the Latin-1 capitals (except the
  multiplication sign U+00D7) move up by 32, every other unit below 256 stays.\<close>

definition is_upper :: "char \<Rightarrow> bool" where
  "is_upper c = (let n = code_unit c in
     (65 \<le> n \<and> n \<le> 90) \<or> (192 \<le> n \<and> n \<le> 222 \<and> n \<noteq> 215))"

definition lower_char :: "char \<Rightarrow> char" where
  "lower_char c = (if is_upper c then char_of (code_unit c + 32) else c)"

definition toLowerCase :: "string \<Rightarrow> string" where
  "toLowerCase s = map lower_char s"

text \<open>White space and line terminators of ECMAScript below 256: TAB, LF, VT, FF, CR,
  SP and NBSP.\<close>

definition is_space :: "char \<Rightarrow> bool" where
  "is_space c = (code_unit c \<in> {9, 10, 11, 12, 13, 32, 160})"

definition trimStart :: "string \<Rightarrow> string" where
  "trimStart s = dropWhile is_space s"

definition trim :: "string \<Rightarrow> string" where
  "trim s = rev (dropWhile is_space (rev (dropWhile is_space s)))"

text \<open>\<open>s.includes(q)\<close>: \<open>q\<close> occurs in \<open>s\<close> as a contiguous run.\<close>

fun str_includes :: "string \<Rightarrow> string \<Rightarrow> bool" where
  "str_includes [] q = (q = [])"
| "str_includes (c # cs) q = (prefix q (c # cs) \<or> str_includes cs q)"

text \<open>\<open>s.split(sep)\<close> for a one-unit separator: never the empty list, \<open>''''.split('-')\<close>
  is \<open>['''']\<close>.\<close>

fun split :: "char \<Rightarrow> string \<Rightarrow> string list" where
  "split sep [] = [[]]"
| "split sep (c # cs) =
     (if c = sep then [] # split sep cs
      else (case split sep cs of [] \<Rightarrow> [[c]] | p # ps \<Rightarrow> (c # p) # ps))"

text \<open>\<open>xs.join(' ')\<close>.\<close>

fun join :: "string \<Rightarrow> string list \<Rightarrow> string" where
  "join sep [] = []"
| "join sep [x] = x"
| "join sep (x # y # ys) = x @ sep @ join sep (y # ys)"

text \<open>\<open>parseInt(s, 10)\<close>: leading white space is skipped, one sign is read, then the
  longest run of decimal digits; no digit gives \<open>NaN\<close> (\<open>None\<close>). What follows the
  digits is ignored.\<close>

definition is_digit :: "char \<Rightarrow> bool" where
  "is_digit c = (48 \<le> code_unit c \<and> code_unit c \<le> 57)"

definition digit_value :: "char \<Rightarrow> int" where
  "digit_value c = int (code_unit c) - 48"

definition digits_value :: "string \<Rightarrow> int" where
  "digits_value ds = foldl (\<lambda>acc c. 10 * acc + digit_value c) 0 ds"

definition parseInt :: "string \<Rightarrow> int option" where
  "parseInt s =
     (let t = trimStart s;
          neg = (t \<noteq> [] \<and> hd t = CHR ''-'');
          u = (if t \<noteq> [] \<and> (hd t = CHR ''-'' \<or> hd t = CHR ''+'') then tl t else t);
          ds = takeWhile is_digit u
      in if ds = [] then None
         else Some (if neg then - digits_value ds else digits_value ds))"

subsection \<open>Dates\<close>

text \<open>
  A \<open>Date\<close> built from year, month and day at local midnight is its day number (days
  since 1970-01-01 on the local calendar), or \<open>None\<close> for \<open>Invalid Date\<close>. Two local
  midnights compare as their day numbers do. \<open>TimeClip\<close> makes a date invalid when its
  time value is more than 8.64e15 ms from the epoch; the offset of the local zone, less
  than a day, is left out of that bound.
\<close>

definition msPerDay :: int where
  "msPerDay = 86400000"

definition DayFromYear :: "int \<Rightarrow> int" where
  "DayFromYear y =
     365 * (y - 1970) + (y - 1969) div 4 - (y - 1901) div 100 + (y - 1601) div 400"

definition InLeapYear :: "int \<Rightarrow> bool" where
  "InLeapYear y = (y mod 4 = 0 \<and> (y mod 100 \<noteq> 0 \<or> y mod 400 = 0))"

definition DaysBeforeMonth :: "bool \<Rightarrow> int \<Rightarrow> int" where
  "DaysBeforeMonth leap mn =
     (let l = (if leap then 1 else 0) in
      if mn = 0 then 0 else if mn = 1 then 31 else if mn = 2 then 59 + l
      else if mn = 3 then 90 + l else if mn = 4 then 120 + l else if mn = 5 then 151 + l
      else if mn = 6 then 181 + l else if mn = 7 then 212 + l else if mn = 8 then 243 + l
      else if mn = 9 then 273 + l else if mn = 10 then 304 + l else 334 + l)"

definition MakeDay :: "int \<Rightarrow> int \<Rightarrow> int \<Rightarrow> int" where
  "MakeDay year month date =
     (let ym = year + month div 12; mn = month mod 12
      in DayFromYear ym + DaysBeforeMonth (InLeapYear ym) mn + date - 1)"

definition TimeClip :: "int \<Rightarrow> int option" where
  "TimeClip day = (if \<bar>day * msPerDay\<bar> > 8640000000000000 then None else Some day)"

text \<open>\<open>new Date(year, month, day)\<close>: a year from 0 to 99 means 1900 + year; month and
  day overflow into the neighbouring months and years.\<close>

definition new_Date :: "int \<Rightarrow> int \<Rightarrow> int \<Rightarrow> int option" where
  "new_Date year month day =
     (let yr = (if 0 \<le> year \<and> year \<le> 99 then 1900 + year else year)
      in TimeClip (MakeDay yr month day))"

text \<open>\<open>expiryDate >= today\<close>: a comparison with \<open>Invalid Date\<close> is false.\<close>

definition date_ge :: "int option \<Rightarrow> int \<Rightarrow> bool" where
  "date_ge d today = (case d of None \<Rightarrow> False | Some e \<Rightarrow> e \<ge> today)"

section \<open>Offers (types.ts)\<close>

datatype OfferType = JOB | SERVICE | PRODUCT

datatype SalaryType = SALARY_PER_HOUR | SALARY_PER_MONTH | SALARY_PER_PROJECT

datatype PriceType = PRICE_PER_HOUR | PRICE_PER_PROJECT | PRICE_FIXED

record LatLng =
  lat :: real
  lng :: real

record Location = LatLng +
  address :: string

record BaseOffer =
  offer_id :: string
  scannedAt :: string
  summary :: string
  location :: "Location option"
  additionalDetails :: "string option"
  expiresAt :: "string option"
  applicantCount :: nat

record JobFields =
  jobTitle :: string
  company :: string
  responsibilities :: "string list"
  skills :: "string list"
  salary :: "string option"
  salaryType :: "SalaryType option"

record ServiceFields =
  serviceName :: string
  provider :: "string option"
  service_price :: "string option"
  priceType :: "PriceType option"

record ProductFields =
  productName :: string
  brand :: "string option"
  price :: string
  condition :: "string option"

record Contact =
  phone :: "string option"
  email :: "string option"

datatype Offer =
    JobOffer BaseOffer JobFields Contact
  | ServiceOffer BaseOffer ServiceFields Contact
  | ProductOffer BaseOffer ProductFields Contact

fun base :: "Offer \<Rightarrow> BaseOffer" where
  "base (JobOffer b j c) = b"
| "base (ServiceOffer b s c) = b"
| "base (ProductOffer b p c) = b"

fun offer_type :: "Offer \<Rightarrow> OfferType" where
  "offer_type (JobOffer b j c) = JOB"
| "offer_type (ServiceOffer b s c) = SERVICE"
| "offer_type (ProductOffer b p c) = PRODUCT"

section \<open>The feed filter (Feed component, \<open>filteredOffers\<close>)\<close>

subsection \<open>Distance\<close>

text \<open>
  The program computes the distance in IEEE double arithmetic, with \<open>Math.sin\<close>,
  \<open>Math.cos\<close> and \<open>Math.atan2\<close> as the engine approximates them. \<open>getDistance\<close> below
  is the same formula, operation by operation, on real numbers without rounding, with
  \<open>NaN\<close> as \<open>None\<close>. The two differ where rounding matters: within rounding error of the
  50 km threshold, and for nearly antipodal points, where the rounded \<open>a\<close> can exceed 1
  and the program returns \<open>NaN\<close>. So nothing below is stated about the value
  \<open>getDistance\<close> returns; the pipeline properties hold whatever the callback computes.

  \<open>Math.sqrt\<close> is \<open>NaN\<close> on a negative number; \<open>Math.atan2(y, x)\<close> is the angle of the
  point \<open>(x, y)\<close>, in \<open>(-\<pi>, \<pi>]\<close> (signed zeros are not told apart).
\<close>

definition Math_sqrt :: "real \<Rightarrow> real option" where
  "Math_sqrt x = (if x < 0 then None else Some (sqrt x))"

definition Math_atan2 :: "real \<Rightarrow> real \<Rightarrow> real" where
  "Math_atan2 y x =
     (if x > 0 then arctan (y / x)
      else if x < 0 then (if y \<ge> 0 then arctan (y / x) + pi else arctan (y / x) - pi)
      else if y > 0 then pi / 2 else if y < 0 then - (pi / 2) else 0)"

definition getDistance :: "real \<Rightarrow> real \<Rightarrow> real \<Rightarrow> real \<Rightarrow> real option" where
  "getDistance lat1 lon1 lat2 lon2 =
     (let R = 6371;
          dLat = (lat2 - lat1) * (pi / 180);
          dLon = (lon2 - lon1) * (pi / 180);
          a = sin (dLat / 2) * sin (dLat / 2) +
              cos (lat1 * (pi / 180)) * cos (lat2 * (pi / 180)) *
              sin (dLon / 2) * sin (dLon / 2)
      in case Math_sqrt a of
           None \<Rightarrow> None
         | Some sa \<Rightarrow>
             (case Math_sqrt (1 - a) of
                None \<Rightarrow> None
              | Some sb \<Rightarrow> Some (R * (2 * Math_atan2 sa sb))))"

text \<open>\<open>distance <= 50\<close>: false when the distance is \<open>NaN\<close>.\<close>

definition num_le :: "real option \<Rightarrow> real \<Rightarrow> bool" where
  "num_le x r = (case x of None \<Rightarrow> False | Some d \<Rightarrow> d \<le> r)"

subsection \<open>The four stages\<close>

fun getOfferTitle :: "Offer \<Rightarrow> string" where
  "getOfferTitle (JobOffer b j c) = jobTitle j"
| "getOfferTitle (ServiceOffer b s c) = serviceName s"
| "getOfferTitle (ProductOffer b p c) = productName p"

text \<open>The callback of the first \<open>offers.filter\<close>; \<open>today\<close> is the day number of the
  current local day (\<open>new Date()\<close> with the time of day set to zero).\<close>

definition isActive :: "int \<Rightarrow> Offer \<Rightarrow> bool" where
  "isActive today offer =
     (case expiresAt (base offer) of
        None \<Rightarrow> True
      | Some e \<Rightarrow>
          if e = [] then True
          else (let parts = split CHR ''-'' e in
            if length parts \<noteq> 3 then True
            else (let year = parseInt (parts ! 0);
                      month = map_option (\<lambda>m. m - 1) (parseInt (parts ! 1));
                      day = parseInt (parts ! 2)
                  in case (year, month, day) of
                       (Some y, Some m, Some d) \<Rightarrow> date_ge (new_Date y m d) today
                     | _ \<Rightarrow> True)))"

definition expiryStage :: "int \<Rightarrow> Offer list \<Rightarrow> Offer list" where
  "expiryStage today offers = filter (isActive today) offers"

text \<open>The type filter of the component state: \<open>'all'\<close> or an offer type.\<close>

datatype ActiveFilter = All | Only OfferType

definition typeStage :: "ActiveFilter \<Rightarrow> Offer list \<Rightarrow> Offer list" where
  "typeStage activeFilter filtered =
     (if activeFilter \<noteq> All
      then filter (\<lambda>offer. Only (offer_type offer) = activeFilter) filtered
      else filtered)"

definition withinRadius :: "LatLng \<Rightarrow> Offer \<Rightarrow> bool" where
  "withinRadius filterCenterPoint offer =
     (case location (base offer) of
        None \<Rightarrow> False
      | Some loc \<Rightarrow>
          (let distance = getDistance (lat filterCenterPoint) (lng filterCenterPoint)
                            (lat loc) (lng loc)
           in num_le distance 50))"

definition proximityStage :: "LatLng option \<Rightarrow> Offer list \<Rightarrow> Offer list" where
  "proximityStage filterCenterPoint filtered =
     (case filterCenterPoint of
        None \<Rightarrow> filtered
      | Some c \<Rightarrow> filter (withinRadius c) filtered)"

definition or_empty :: "string option \<Rightarrow> string" where
  "or_empty s = (case s of None \<Rightarrow> [] | Some t \<Rightarrow> t)"

definition otherDetails :: "Offer \<Rightarrow> string" where
  "otherDetails offer =
     (case location (base offer) of
        None \<Rightarrow> []
      | Some loc \<Rightarrow> toLowerCase (address loc) @ '' '') @
     (case offer of
        JobOffer b j c \<Rightarrow> toLowerCase (company j @ '' '' @ join '' '' (skills j))
      | ServiceOffer b s c \<Rightarrow> toLowerCase (or_empty (provider s))
      | ProductOffer b p c \<Rightarrow> toLowerCase (or_empty (brand p)))"

definition matchesQuery :: "string \<Rightarrow> Offer \<Rightarrow> bool" where
  "matchesQuery lowercasedQuery offer =
     (let title = toLowerCase (getOfferTitle offer);
          summary_lc = toLowerCase (summary (base offer))
      in str_includes title lowercasedQuery \<or> str_includes summary_lc lowercasedQuery \<or>
         str_includes (otherDetails offer) lowercasedQuery)"

definition textStage :: "string \<Rightarrow> Offer list \<Rightarrow> Offer list" where
  "textStage searchQuery filtered =
     (if trim searchQuery \<noteq> []
      then (let lowercasedQuery = toLowerCase searchQuery
            in filter (matchesQuery lowercasedQuery) filtered)
      else filtered)"

definition filteredOffers ::
  "int \<Rightarrow> string \<Rightarrow> ActiveFilter \<Rightarrow> LatLng option \<Rightarrow> Offer list \<Rightarrow> Offer list" where
  "filteredOffers today searchQuery activeFilter filterCenterPoint offers =
     (let activeOffers = expiryStage today offers;
          filtered = activeOffers;
          filtered = typeStage activeFilter filtered;
          filtered = proximityStage filterCenterPoint filtered;
          filtered = textStage searchQuery filtered
      in filtered)"

subsection \<open>The stages as the specification words them\<close>

text \<open>The expiry date of an offer as a day number: the field is present, splits on
  \<open>-\<close> into three parts, each part parses as a number, and the three numbers make a
  valid date.\<close>

definition expiry_day :: "Offer \<Rightarrow> int option" where
  "expiry_day offer =
     (case expiresAt (base offer) of
        None \<Rightarrow> None
      | Some e \<Rightarrow>
          (case split CHR ''-'' e of
             [p1, p2, p3] \<Rightarrow>
               (case (parseInt p1, parseInt p2, parseInt p3) of
                  (Some y, Some m, Some d) \<Rightarrow> new_Date y (m - 1) d
                | _ \<Rightarrow> None)
           | _ \<Rightarrow> None))"

definition expired_before :: "int \<Rightarrow> Offer \<Rightarrow> bool" where
  "expired_before today offer =
     (case expiry_day offer of None \<Rightarrow> False | Some e \<Rightarrow> e < today)"

text \<open>The three numbers of a well-formed \<open>expiresAt\<close> make no valid date.\<close>

definition expiry_out_of_range :: "Offer \<Rightarrow> bool" where
  "expiry_out_of_range offer =
     (case expiresAt (base offer) of
        None \<Rightarrow> False
      | Some e \<Rightarrow>
          (case split CHR ''-'' e of
             [p1, p2, p3] \<Rightarrow>
               (case (parseInt p1, parseInt p2, parseInt p3) of
                  (Some y, Some m, Some d) \<Rightarrow> new_Date y (m - 1) d = None
                | _ \<Rightarrow> False)
           | _ \<Rightarrow> False))"

text \<open>The title of an offer: the job title, the service name, the product name.\<close>

fun title_of :: "Offer \<Rightarrow> string" where
  "title_of (JobOffer b j c) = jobTitle j"
| "title_of (ServiceOffer b s c) = serviceName s"
| "title_of (ProductOffer b p c) = productName p"

text \<open>Strings put one after the other with a single space between neighbours.\<close>

fun space_joined :: "string list \<Rightarrow> string" where
  "space_joined [] = []"
| "space_joined (s # ss) = s @ concat (map (\<lambda>t. CHR '' '' # t) ss)"

text \<open>The type-specific fields: (job) company, a space, the space-joined skills;
  (service) the provider, if any; (product) the brand, if any.\<close>

fun type_fields :: "Offer \<Rightarrow> string" where
  "type_fields (JobOffer b j c) = company j @ '' '' @ space_joined (skills j)"
| "type_fields (ServiceOffer b s c) = (case provider s of None \<Rightarrow> [] | Some t \<Rightarrow> t)"
| "type_fields (ProductOffer b p c) = (case brand p of None \<Rightarrow> [] | Some t \<Rightarrow> t)"

text \<open>The combination the query is looked up in besides title and summary: the
  location address and a space, when the offer has a location, then the type-specific
  fields.\<close>

definition combined_details :: "Offer \<Rightarrow> string" where
  "combined_details offer =
     (case location (base offer) of
        None \<Rightarrow> type_fields offer
      | Some loc \<Rightarrow> address loc @ '' '' @ type_fields offer)"

definition query_matches :: "string \<Rightarrow> Offer \<Rightarrow> bool" where
  "query_matches query offer =
     (sublist (toLowerCase query) (toLowerCase (title_of offer)) \<or>
      sublist (toLowerCase query) (toLowerCase (summary (base offer))) \<or>
      sublist (toLowerCase query) (toLowerCase (combined_details offer)))"

text \<open>A string that is empty or all white space.\<close>

definition blank :: "string \<Rightarrow> bool" where
  "blank s = list_all is_space s"

section \<open>The lookup cache (geminiService.ts)\<close>

subsection \<open>Values, errors and the state of the page\<close>

datatype js_error = TypeError | SyntaxError | QuotaExceededError | SecurityError | ApiError

text \<open>What \<open>JSON.parse\<close> returns; \<open>JNull\<close> is also the \<open>null\<close> a lookup returns.\<close>

datatype json =
    JNull
  | JBool bool
  | JNum real
  | JStr string
  | JArr "json list"
  | JObj "(string \<times> json) list"

text \<open>An entry of the cache, \<open>{ value, expiry }\<close>.\<close>

record entry =
  val :: json
  expiry :: int

text \<open>The text of a \<open>localStorage\<close> item under the cache prefix: the JSON text of an
  entry (only \<open>setInCache\<close> writes under that prefix, and what it caches came out of
  \<open>JSON.parse\<close>, so the text reads back as the entry), or text on which \<open>JSON.parse\<close>
  or the read of \<open>expiry\<close> throws.\<close>

datatype stored = EntryText entry | BrokenText

text \<open>A call of the language model, and what comes back: the call is rejected, the
  response has no text, the text is not JSON, or the text parses to a value.\<close>

datatype ai_request =
    ReverseGeocodePrompt real real
  | SuggestionsPrompt string
  | GeocodePrompt string

datatype ai_reply = Rejected | NoText | NotJson | Json json

text \<open>The mutable state the service works on: the module's \<open>Map\<close>, the browser's
  \<open>localStorage\<close> (which may be disabled, or full), the console, the calls made to the
  model, and the clock \<open>Date.now()\<close> reads, in milliseconds.\<close>

record world =
  cache :: "string \<rightharpoonup> entry"
  localStorage :: "string \<rightharpoonup> stored"
  storage_disabled :: bool
  storage_full :: bool
  console :: "string list"
  requests :: "ai_request list"
  clock :: int

text \<open>A computation runs on the state and returns a value or throws; the state
  changes made before a throw stay.\<close>

type_synonym 'a js = "world \<Rightarrow> (js_error + 'a) \<times> world"

definition return_js :: "'a \<Rightarrow> 'a js" where
  "return_js x w = (Inr x, w)"

definition throw_js :: "js_error \<Rightarrow> 'a js" where
  "throw_js e w = (Inl e, w)"

definition bind_js :: "'a js \<Rightarrow> ('a \<Rightarrow> 'b js) \<Rightarrow> 'b js" where
  "bind_js m f w = (case m w of (Inl e, w') \<Rightarrow> (Inl e, w') | (Inr x, w') \<Rightarrow> f x w')"

definition try_catch :: "'a js \<Rightarrow> (js_error \<Rightarrow> 'a js) \<Rightarrow> 'a js" where
  "try_catch m handler w =
     (case m w of (Inl e, w') \<Rightarrow> handler e w' | (Inr x, w') \<Rightarrow> (Inr x, w'))"

definition Date_now :: "int js" where
  "Date_now w = (Inr (clock w), w)"

definition cache_get :: "string \<Rightarrow> entry option js" where
  "cache_get key w = (Inr (cache w key), w)"

definition cache_set :: "string \<Rightarrow> entry \<Rightarrow> unit js" where
  "cache_set key e w = (Inr (), w\<lparr>cache := (cache w)(key \<mapsto> e)\<rparr>)"

definition cache_delete :: "string \<Rightarrow> unit js" where
  "cache_delete key w = (Inr (), w\<lparr>cache := (cache w)(key := None)\<rparr>)"

definition localStorage_getItem :: "string \<Rightarrow> stored option js" where
  "localStorage_getItem k w =
     (if storage_disabled w then (Inl SecurityError, w) else (Inr (localStorage w k), w))"

definition localStorage_setItem :: "string \<Rightarrow> stored \<Rightarrow> unit js" where
  "localStorage_setItem k v w =
     (if storage_disabled w then (Inl SecurityError, w)
      else if storage_full w then (Inl QuotaExceededError, w)
      else (Inr (), w\<lparr>localStorage := (localStorage w)(k \<mapsto> v)\<rparr>))"

definition localStorage_removeItem :: "string \<Rightarrow> unit js" where
  "localStorage_removeItem k w =
     (if storage_disabled w then (Inl SecurityError, w)
      else (Inr (), w\<lparr>localStorage := (localStorage w)(k := None)\<rparr>))"

definition console_error :: "string \<Rightarrow> unit js" where
  "console_error msg w = (Inr (), w\<lparr>console := console w @ [msg]\<rparr>)"

definition JSON_stringify :: "entry \<Rightarrow> stored" where
  "JSON_stringify e = EntryText e"

definition JSON_parse :: "stored \<Rightarrow> entry js" where
  "JSON_parse t = (case t of EntryText e \<Rightarrow> return_js e | BrokenText \<Rightarrow> throw_js SyntaxError)"

subsection \<open>\<open>getFromCache\<close> and \<open>setInCache\<close>\<close>

definition CACHE_TTL :: int where
  "CACHE_TTL = 5 * 60 * 1000"

definition LOCAL_STORAGE_CACHE_PREFIX :: string where
  "LOCAL_STORAGE_CACHE_PREFIX = ''gemini_api_cache_''"

text \<open>Step 2 of \<open>getFromCache\<close>, the \<open>try\<close> block and the final \<open>return null\<close>. The
  block yields \<open>Some v\<close> where the source returns \<open>v\<close> from inside it.\<close>

definition getFromLocalStorage :: "string \<Rightarrow> json js" where
  "getFromLocalStorage key =
     bind_js
       (try_catch
          (bind_js (localStorage_getItem (LOCAL_STORAGE_CACHE_PREFIX @ key)) (\<lambda>localData.
             case localData of
               None \<Rightarrow> return_js None
             | Some text \<Rightarrow>
                 bind_js (JSON_parse text) (\<lambda>localEntry.
                 bind_js Date_now (\<lambda>now.
                   if expiry localEntry > now
                   then bind_js
                          (cache_set key \<lparr>val = val localEntry, expiry = expiry localEntry\<rparr>)
                          (\<lambda>_. return_js (Some (val localEntry)))
                   else bind_js
                          (localStorage_removeItem (LOCAL_STORAGE_CACHE_PREFIX @ key))
                          (\<lambda>_. return_js None)))))
          (\<lambda>error. bind_js (console_error ''Error reading from localStorage cache'')
                      (\<lambda>_. return_js None)))
       (\<lambda>found. case found of Some v \<Rightarrow> return_js v | None \<Rightarrow> return_js JNull)"

definition getFromCache :: "string \<Rightarrow> json js" where
  "getFromCache key =
     bind_js (cache_get key) (\<lambda>entry.
     bind_js Date_now (\<lambda>now.
       case entry of
         None \<Rightarrow> getFromLocalStorage key
       | Some e \<Rightarrow>
           if expiry e > now then return_js (val e)
           else bind_js (cache_delete key) (\<lambda>_. getFromLocalStorage key)))"

definition setInCache :: "string \<Rightarrow> json \<Rightarrow> unit js" where
  "setInCache key v =
     bind_js Date_now (\<lambda>now.
       let expires = now + CACHE_TTL in
       bind_js (cache_set key \<lparr>val = v, expiry = expires\<rparr>) (\<lambda>_.
         try_catch
           (let localEntry = \<lparr>val = v, expiry = expires\<rparr>
            in localStorage_setItem (LOCAL_STORAGE_CACHE_PREFIX @ key)
                 (JSON_stringify localEntry))
           (\<lambda>error. console_error ''Error writing to localStorage cache'')))"

subsection \<open>The lookups\<close>

text \<open>Truthiness of a value, and of a property that may be \<open>undefined\<close> (\<open>None\<close>).\<close>

fun truthy :: "json \<Rightarrow> bool" where
  "truthy JNull = False"
| "truthy (JBool b) = b"
| "truthy (JNum x) = (x \<noteq> 0)"
| "truthy (JStr s) = (s \<noteq> [])"
| "truthy (JArr xs) = True"
| "truthy (JObj kvs) = True"

text \<open>\<open>parsed.name\<close> for the data property names the service reads: a \<open>TypeError\<close> on
  \<open>null\<close>, \<open>undefined\<close> on anything that is not an object with that key.\<close>

definition get_prop :: "json \<Rightarrow> string \<Rightarrow> json option js" where
  "get_prop j name =
     (case j of
        JNull \<Rightarrow> throw_js TypeError
      | JObj kvs \<Rightarrow> return_js (map_of kvs name)
      | _ \<Rightarrow> return_js None)"

text \<open>\<open>x || d\<close> on a property.\<close>

definition or_else :: "json option \<Rightarrow> json \<Rightarrow> json" where
  "or_else p d = (case p of None \<Rightarrow> d | Some v \<Rightarrow> if truthy v then v else d)"

text \<open>\<open>typeof x === 'number'\<close>.\<close>

definition is_number :: "json option \<Rightarrow> bool" where
  "is_number p = (case p of Some (JNum x) \<Rightarrow> True | _ \<Rightarrow> False)"

text \<open>\<open>await ai.models.generateContent(...)\<close>: the request goes out, \<open>latency\<close>
  milliseconds pass, and the call is rejected or a response comes back. The reply is
  what the service answers to this call.\<close>

definition generateContent :: "ai_request \<Rightarrow> ai_reply \<Rightarrow> nat \<Rightarrow> ai_reply js" where
  "generateContent request reply latency w =
     (let w' = w\<lparr>requests := requests w @ [request], clock := clock w + int latency\<rparr>
      in case reply of Rejected \<Rightarrow> (Inl ApiError, w') | _ \<Rightarrow> (Inr reply, w'))"

text \<open>\<open>JSON.parse(response.text.trim())\<close>.\<close>

definition parse_response :: "ai_reply \<Rightarrow> json js" where
  "parse_response response =
     (case response of
        Json j \<Rightarrow> return_js j
      | NotJson \<Rightarrow> throw_js SyntaxError
      | _ \<Rightarrow> throw_js TypeError)"

text \<open>\<open>x.toFixed(2)\<close> for \<open>|x| < 1e21\<close>: the nearest multiple of 0.01, the larger one
  on a tie, in decimal digits.\<close>

definition digit_char :: "nat \<Rightarrow> char" where
  "digit_char n = char_of (48 + n)"

fun decimal :: "nat \<Rightarrow> string" where
  "decimal n = (if n < 10 then [digit_char n] else decimal (n div 10) @ [digit_char (n mod 10)])"

definition toFixed2 :: "real \<Rightarrow> string" where
  "toFixed2 x =
     (let n = nat \<lfloor>\<bar>x\<bar> * 100 + 1 / 2\<rfloor>;
          m = decimal (n div 100) @ ''.'' @ [digit_char (n mod 100 div 10), digit_char (n mod 10)]
      in if x < 0 then CHR ''-'' # m else m)"

definition reverseGeocode_key :: "LatLng \<Rightarrow> string" where
  "reverseGeocode_key coords =
     ''reverse-geocode:'' @ toFixed2 (lat coords) @ '','' @ toFixed2 (lng coords)"

text \<open>The \<open>try\<close> statement of \<open>reverseGeocode\<close>, with its \<open>catch\<close>.\<close>

definition reverseGeocode_try :: "string \<Rightarrow> LatLng \<Rightarrow> ai_reply \<Rightarrow> nat \<Rightarrow> json js" where
  "reverseGeocode_try cacheKey coords reply latency =
     try_catch
       (bind_js (generateContent (ReverseGeocodePrompt (lat coords) (lng coords))
                   reply latency) (\<lambda>response.
        bind_js (parse_response response) (\<lambda>parsed.
        bind_js (get_prop parsed ''locationName'') (\<lambda>p.
          let locationName = or_else p JNull in
          bind_js (if truthy locationName then setInCache cacheKey locationName
                   else return_js ()) (\<lambda>_.
          return_js locationName)))))
       (\<lambda>error. bind_js (console_error ''Error reverse geocoding with Gemini:'')
                   (\<lambda>_. return_js JNull))"

definition reverseGeocode :: "LatLng \<Rightarrow> ai_reply \<Rightarrow> nat \<Rightarrow> json js" where
  "reverseGeocode coords reply latency =
     (let cacheKey = reverseGeocode_key coords in
      bind_js (getFromCache cacheKey) (\<lambda>cached.
        if truthy cached then return_js cached
        else reverseGeocode_try cacheKey coords reply latency))"

definition suggestions_key :: "string \<Rightarrow> string" where
  "suggestions_key query = ''suggestions:'' @ toLowerCase query"

text \<open>The \<open>try\<close> statement of \<open>getLocationSuggestions\<close>, with its \<open>catch\<close>.\<close>

definition getLocationSuggestions_try :: "string \<Rightarrow> string \<Rightarrow> ai_reply \<Rightarrow> nat \<Rightarrow> json js" where
  "getLocationSuggestions_try cacheKey query reply latency =
     try_catch
       (bind_js (generateContent (SuggestionsPrompt query) reply latency) (\<lambda>response.
        bind_js (parse_response response) (\<lambda>parsed.
        bind_js (get_prop parsed ''suggestions'') (\<lambda>p.
          let suggestions = or_else p (JArr []) in
          bind_js (setInCache cacheKey suggestions) (\<lambda>_.
          return_js suggestions)))))
       (\<lambda>error. bind_js (console_error ''Error getting location suggestions from Gemini:'')
                   (\<lambda>_. return_js (JArr [])))"

definition getLocationSuggestions :: "string \<Rightarrow> ai_reply \<Rightarrow> nat \<Rightarrow> json js" where
  "getLocationSuggestions query reply latency =
     (if length (trim query) < 3 then return_js (JArr [])
      else
        (let cacheKey = suggestions_key query in
         bind_js (getFromCache cacheKey) (\<lambda>cached.
           if truthy cached then return_js cached
           else getLocationSuggestions_try cacheKey query reply latency)))"

definition geocode_key :: "string \<Rightarrow> string" where
  "geocode_key addr = ''geocode:'' @ toLowerCase addr"

text \<open>The \<open>try\<close> statement of \<open>geocodeLocation\<close>, with its \<open>catch\<close>.\<close>

definition geocodeLocation_try :: "string \<Rightarrow> string \<Rightarrow> ai_reply \<Rightarrow> nat \<Rightarrow> json js" where
  "geocodeLocation_try cacheKey addr reply latency =
     try_catch
       (bind_js (generateContent (GeocodePrompt addr) reply latency) (\<lambda>response.
        bind_js (parse_response response) (\<lambda>parsed.
        bind_js (get_prop parsed ''lat'') (\<lambda>plat.
          if is_number plat
          then bind_js (get_prop parsed ''lng'') (\<lambda>plng.
                 if is_number plng
                 then bind_js (setInCache cacheKey parsed) (\<lambda>_. return_js parsed)
                 else return_js JNull)
          else return_js JNull))))
       (\<lambda>error. bind_js (console_error ''Error geocoding location with Gemini:'')
                   (\<lambda>_. return_js JNull))"

definition geocodeLocation :: "string \<Rightarrow> ai_reply \<Rightarrow> nat \<Rightarrow> json js" where
  "geocodeLocation addr reply latency =
     (if trim addr = [] then return_js JNull
      else
        (let cacheKey = geocode_key addr in
         bind_js (getFromCache cacheKey) (\<lambda>cached.
           if truthy cached then return_js cached
           else geocodeLocation_try cacheKey addr reply latency)))"

section \<open>What the properties speak of\<close>

text \<open>An offer passes the pipeline when it passes each of the four callbacks.\<close>

definition keeps :: "int \<Rightarrow> string \<Rightarrow> ActiveFilter \<Rightarrow> LatLng option \<Rightarrow> Offer \<Rightarrow> bool" where
  "keeps today searchQuery activeFilter filterCenterPoint offer =
     (isActive today offer \<and>
      (activeFilter = All \<or> Only (offer_type offer) = activeFilter) \<and>
      (case filterCenterPoint of None \<Rightarrow> True | Some c \<Rightarrow> withinRadius c offer) \<and>
      (trim searchQuery = [] \<or> matchesQuery (toLowerCase searchQuery) offer))"

text \<open>The same state at another reading of the clock.\<close>

definition at_time :: "int \<Rightarrow> world \<Rightarrow> world" where
  "at_time t w = w\<lparr>clock := t\<rparr>"

text \<open>The reply to a reverse-geocode call carries a location name that is not null
  (nor otherwise falsy); the reply to a geocode call carries numeric \<open>lat\<close> and \<open>lng\<close>.\<close>

definition names_location :: "ai_reply \<Rightarrow> bool" where
  "names_location reply =
     (case reply of
        Json (JObj kvs) \<Rightarrow>
          (case map_of kvs ''locationName'' of None \<Rightarrow> False | Some v \<Rightarrow> truthy v)
      | _ \<Rightarrow> False)"

definition has_coordinates :: "ai_reply \<Rightarrow> bool" where
  "has_coordinates reply =
     (case reply of
        Json (JObj kvs) \<Rightarrow> is_number (map_of kvs ''lat'') \<and> is_number (map_of kvs ''lng'')
      | _ \<Rightarrow> False)"

text \<open>A lookup misses: \<open>getFromCache\<close> returns nothing the caller takes for a hit.\<close>

definition missed :: "string \<Rightarrow> world \<Rightarrow> bool" where
  "missed key w = (case fst (getFromCache key w) of Inl e \<Rightarrow> False | Inr v \<Rightarrow> \<not> truthy v)"

text \<open>What is stored under a key is truthy, in both tiers, as is every value the three
  lookups pass to \<open>setInCache\<close>.\<close>

definition stored_truthy :: "string \<Rightarrow> world \<Rightarrow> bool" where
  "stored_truthy key w =
     ((case cache w key of None \<Rightarrow> True | Some e \<Rightarrow> truthy (val e)) \<and>
      (case localStorage w (LOCAL_STORAGE_CACHE_PREFIX @ key) of
         Some (EntryText e) \<Rightarrow> truthy (val e)
       | _ \<Rightarrow> True))"

text \<open>No tier can answer a lookup of the key, at any time.\<close>

definition uncached :: "string \<Rightarrow> world \<Rightarrow> bool" where
  "uncached key w =
     (cache w key = None \<and>
      (storage_disabled w \<or>
       (case localStorage w (LOCAL_STORAGE_CACHE_PREFIX @ key) of
          Some (EntryText e) \<Rightarrow> False
        | _ \<Rightarrow> True)))"

subsection \<open>Sample data\<close>

definition no_contact :: Contact where
  "no_contact = \<lparr>phone = None, email = None\<rparr>"

definition sample_base :: "string \<Rightarrow> string option \<Rightarrow> Location option \<Rightarrow> BaseOffer" where
  "sample_base ident expires loc =
     \<lparr>offer_id = ident, scannedAt = ''2024-05-01T09:00:00.000Z'',
      summary = ''Posted on a notice board'', location = loc, additionalDetails = None,
      expiresAt = expires, applicantCount = 3\<rparr>"

definition sample_job :: "string \<Rightarrow> string option \<Rightarrow> Location option \<Rightarrow> Offer" where
  "sample_job ident expires loc =
     JobOffer (sample_base ident expires loc)
       \<lparr>jobTitle = ''Welder'', company = ''Acme Corp'', responsibilities = [''Weld frames''],
        skills = [''MIG'', ''TIG''], salary = None, salaryType = None\<rparr>
       no_contact"

definition sample_product :: "string \<Rightarrow> string option \<Rightarrow> Location option \<Rightarrow> Offer" where
  "sample_product ident expires loc =
     ProductOffer (sample_base ident expires loc)
       \<lparr>productName = ''Road bike'', brand = Some ''Velo'', price = ''120'', condition = None\<rparr>
       no_contact"

text \<open>2024-06-01 as a day number.\<close>

definition june_first_2024 :: int where
  "june_first_2024 = 19875"

definition fresh_world :: world where
  "fresh_world =
     \<lparr>cache = Map.empty, localStorage = Map.empty, storage_disabled = False,
      storage_full = False, console = [], requests = [], clock = 1717200000000\<rparr>"

text \<open>A page whose \<open>localStorage\<close> holds a live entry from an earlier session, and
  nothing in memory.\<close>

definition reloaded_world :: world where
  "reloaded_world =
     fresh_world\<lparr>localStorage :=
       [LOCAL_STORAGE_CACHE_PREFIX @ ''geocode:paris'' \<mapsto>
          EntryText \<lparr>val = JObj [(''lat'', JNum 48.86), (''lng'', JNum 2.35)],
                     expiry = 1717200060000\<rparr>]\<rparr>"

definition manhattan :: LatLng where
  "manhattan = \<lparr>lat = 40.71, lng = - 74.01\<rparr>"

text \<open>Three offers that differ in every field the text stage reads.\<close>

definition dock_road :: Location where
  "dock_road = \<lparr>lat = 53.4, lng = - 3, address = ''12 Dock Road''\<rparr>"

definition harbour_job :: Offer where
  "harbour_job =
     JobOffer
       \<lparr>offer_id = ''j1'', scannedAt = ''2024-05-01T09:00:00.000Z'',
        summary = ''Night shifts at the harbour'', location = Some dock_road,
        additionalDetails = None, expiresAt = None, applicantCount = 0\<rparr>
       \<lparr>jobTitle = ''Welder'', company = ''Acme Corp'', responsibilities = [''Weld frames''],
        skills = [''MIG'', ''TIG''], salary = None, salaryType = None\<rparr>
       no_contact"

definition garden_service :: Offer where
  "garden_service =
     ServiceOffer
       \<lparr>offer_id = ''s1'', scannedAt = ''2024-05-02T09:00:00.000Z'',
        summary = ''Lawn care and hedges'', location = None,
        additionalDetails = None, expiresAt = None, applicantCount = 2\<rparr>
       \<lparr>serviceName = ''Gardening'', provider = Some ''Green Thumb'', service_price = None,
        priceType = None\<rparr>
       no_contact"

definition bike_product :: Offer where
  "bike_product =
     ProductOffer
       \<lparr>offer_id = ''p1'', scannedAt = ''2024-05-03T09:00:00.000Z'',
        summary = ''Barely used'', location = None,
        additionalDetails = None, expiresAt = None, applicantCount = 5\<rparr>
       \<lparr>productName = ''Road bike'', brand = Some ''Velo'', price = ''120'', condition = None\<rparr>
       no_contact"

definition text_offers :: "Offer list" where
  "text_offers = [harbour_job, garden_service, bike_product]"

section \<open>Strings\<close>

lemma str_includes_sublist: "str_includes s q = sublist q s"
  by (induction s) (auto simp: sublist_Cons_right)

lemma toLowerCase_append: "toLowerCase (a @ b) = toLowerCase a @ toLowerCase b"
  by (simp add: toLowerCase_def)

lemma lower_char_space: "lower_char CHR '' '' = CHR '' ''"
  by (simp add: lower_char_def is_upper_def code_unit_def)

lemma dropWhile_all: "(\<forall>x\<in>set (dropWhile P xs). P x) \<longleftrightarrow> (\<forall>x\<in>set xs. P x)"
proof
  assume a: "\<forall>x\<in>set (dropWhile P xs). P x"
  have "dropWhile P xs = []"
  proof (rule ccontr)
    assume n: "dropWhile P xs \<noteq> []"
    then have "\<not> P (hd (dropWhile P xs))" by (rule hd_dropWhile)
    moreover have "hd (dropWhile P xs) \<in> set (dropWhile P xs)" using n by simp
    ultimately show False using a by blast
  qed
  then show "\<forall>x\<in>set xs. P x" by simp
next
  assume "\<forall>x\<in>set xs. P x"
  then show "\<forall>x\<in>set (dropWhile P xs). P x" by (meson set_dropWhileD)
qed

text \<open>The trimmed form of a string is empty exactly when the string is empty or all
  white space.\<close>

lemma trim_empty_iff: "trim s = [] \<longleftrightarrow> blank s"
  by (simp add: trim_def blank_def list_all_iff dropWhile_all)

lemmas parse_defs = parseInt_def trimStart_def is_space_def code_unit_def is_digit_def
  digits_value_def digit_value_def

lemmas date_defs = new_Date_def MakeDay_def DayFromYear_def DaysBeforeMonth_def InLeapYear_def
  TimeClip_def msPerDay_def date_ge_def

lemmas sample_defs = sample_job_def sample_product_def sample_base_def no_contact_def
  june_first_2024_def

section \<open>The expiry stage\<close>

lemma length3: "length xs = 3 \<Longrightarrow> \<exists>a b c. xs = [a, b, c]"
  by (auto simp: length_Suc_conv numeral_3_eq_3)

lemma isActive_None: "expiresAt (base offer) = None \<Longrightarrow> isActive today offer"
  by (simp add: isActive_def)

lemma isActive_not3:
  "expiresAt (base offer) = Some e \<Longrightarrow> length (split CHR ''-'' e) \<noteq> 3 \<Longrightarrow> isActive today offer"
  by (simp add: isActive_def)

lemma isActive_3:
  assumes "expiresAt (base offer) = Some e" "split CHR ''-'' e = [a, b, c]"
  shows "isActive today offer =
     (case parseInt a of None \<Rightarrow> True | Some y \<Rightarrow>
        (case parseInt b of None \<Rightarrow> True | Some m \<Rightarrow>
           (case parseInt c of None \<Rightarrow> True
            | Some d \<Rightarrow> date_ge (new_Date y (m - 1) d) today)))"
proof -
  have "e \<noteq> []" using assms(2) by auto
  then show ?thesis unfolding isActive_def Let_def assms(1) using assms(2)
    by (cases "parseInt a"; cases "parseInt b"; cases "parseInt c") simp_all
qed

lemma expired_None:
  "expiresAt (base offer) = None \<Longrightarrow>
     \<not> expired_before today offer \<and> \<not> expiry_out_of_range offer"
  by (simp add: expired_before_def expiry_day_def expiry_out_of_range_def)

lemma expired_not3:
  assumes "expiresAt (base offer) = Some e" "length (split CHR ''-'' e) \<noteq> 3"
  shows "\<not> expired_before today offer \<and> \<not> expiry_out_of_range offer"
proof -
  have "\<And>a b c. split CHR ''-'' e \<noteq> [a, b, c]" using assms(2) by auto
  then show ?thesis using assms(1)
    by (simp add: expired_before_def expiry_day_def expiry_out_of_range_def split: list.splits)
qed

lemma expired_3:
  assumes "expiresAt (base offer) = Some e" "split CHR ''-'' e = [a, b, c]"
  shows "(\<not> expired_before today offer \<and> \<not> expiry_out_of_range offer) =
     (case parseInt a of None \<Rightarrow> True | Some y \<Rightarrow>
        (case parseInt b of None \<Rightarrow> True | Some m \<Rightarrow>
           (case parseInt c of None \<Rightarrow> True
            | Some d \<Rightarrow> date_ge (new_Date y (m - 1) d) today)))"
  unfolding expired_before_def expiry_day_def expiry_out_of_range_def date_ge_def assms(1)
  using assms(2)
  by (cases "parseInt a"; cases "parseInt b"; cases "parseInt c") (auto split: option.splits)

text \<open>What the expiry callback does on every offer: it drops the offers whose date is
  before today, and also those whose three numbers make no valid date.\<close>

lemma isActive_iff:
  "isActive today offer \<longleftrightarrow> \<not> expired_before today offer \<and> \<not> expiry_out_of_range offer"
proof (cases "expiresAt (base offer)")
  case None
  then show ?thesis using isActive_None expired_None by blast
next
  case (Some e)
  show ?thesis
  proof (cases "length (split CHR ''-'' e) = 3")
    case False
    then show ?thesis using Some isActive_not3 expired_not3 by blast
  next
    case True
    then obtain a b c where p: "split CHR ''-'' e = [a, b, c]" using length3 by blast
    show ?thesis unfolding isActive_3[OF Some p] expired_3[OF Some p] by simp
  qed
qed

lemma expiryStage_filter:
  "expiryStage today offers =
     filter (\<lambda>offer. \<not> expired_before today offer \<and> \<not> expiry_out_of_range offer) offers"
  unfolding expiryStage_def by (rule filter_cong) (simp_all add: isActive_iff)

text \<open>The scenario of the specification: of two jobs expiring 2099-01-01 and
  2000-01-01, on 2024-06-01 the stage keeps the first.\<close>

lemma expiryStage_scenario:
  "expiryStage june_first_2024
     [sample_job ''1'' (Some ''2099-01-01'') None, sample_job ''2'' (Some ''2000-01-01'') None]
   = [sample_job ''1'' (Some ''2099-01-01'') None]"
  by (simp add: expiryStage_def isActive_def sample_defs parse_defs date_defs)

text \<open>
  Claim C1. The expiry stage removes exactly the offers whose \<open>expiresAt\<close> is present,
  splits on \<open>-\<close> into three parts that parse as numbers, and yields a calendar date
  strictly before today; every other offer is kept. The code departs from this on one
  input class: the offer below expires on 1 January of the year 300000, which is not
  before 2024-06-01 (there is no such \<open>Date\<close>: it lies past the last representable day,
  so the comparison \<open>expiryDate >= today\<close> is false), and the stage removes it.
\<close>

theorem expiry_stage_drops_unrepresentable_date:
  "expiryStage june_first_2024 [sample_job ''1'' (Some ''300000-01-01'') None] = [] \<and>
   \<not> expired_before june_first_2024 (sample_job ''1'' (Some ''300000-01-01'') None)"
  by (simp add: expiryStage_def isActive_def expired_before_def expiry_day_def sample_defs
      parse_defs date_defs)

section \<open>The proximity stage\<close>

text \<open>What the stage does whatever the distance comes to: without a center point it
  returns its input, and with one it drops every offer that has no location.\<close>

lemma proximityStage_no_center: "proximityStage None offers = offers"
  by (simp add: proximityStage_def)

lemma withinRadius_no_location:
  "location (base offer) = None \<Longrightarrow> \<not> withinRadius center offer"
  by (simp add: withinRadius_def)

lemma proximityStage_has_location:
  "offer \<in> set (proximityStage (Some center) offers) \<Longrightarrow> location (base offer) \<noteq> None"
  by (auto simp: proximityStage_def withinRadius_def split: option.splits)

section \<open>The text stage\<close>

lemma join_space_joined: "join '' '' xs = space_joined xs"
  by (induction "'' ''" xs rule: join.induct) simp_all

lemma getOfferTitle_title_of: "getOfferTitle offer = title_of offer"
  by (cases offer) simp_all

lemma otherDetails_combined: "otherDetails offer = toLowerCase (combined_details offer)"
  by (cases offer)
    (auto simp: otherDetails_def combined_details_def or_empty_def toLowerCase_def
      lower_char_space join_space_joined split: option.splits)

lemma matchesQuery_spec: "matchesQuery (toLowerCase query) = query_matches query"
  by (rule ext)
    (simp add: matchesQuery_def query_matches_def str_includes_sublist otherDetails_combined
      getOfferTitle_title_of)

text \<open>
  Claim C4. For a query whose trimmed form is not empty, the text stage keeps exactly
  the offers for which the lower-cased query is a substring of the lower-cased title,
  of the lower-cased summary, or of the lower-cased combination of location address
  and type-specific fields (job: company plus space-joined skills; service: provider;
  product: brand); a query that is empty or all white space keeps every offer.
\<close>

theorem text_stage_substring:
  "textStage query offers =
     (if trim query = [] then offers else filter (query_matches query) offers) \<and>
   (trim query = [] \<longleftrightarrow> blank query)"
  by (simp add: textStage_def matchesQuery_spec trim_empty_iff)

text \<open>The stage on the three sample offers: a query found only in a title (in the
  other letter case), in a summary, in the joined skills, in a company, in a provider,
  in a brand, across address and company, in an address and in another offer's title,
  nowhere, and a query of white space.\<close>

theorem text_stage_witness:
  "textStage ''WELD'' text_offers = [harbour_job] \<and>
   textStage ''hedges'' text_offers = [garden_service] \<and>
   textStage ''mig tig'' text_offers = [harbour_job] \<and>
   textStage ''acme'' text_offers = [harbour_job] \<and>
   textStage ''green'' text_offers = [garden_service] \<and>
   textStage ''velo'' text_offers = [bike_product] \<and>
   textStage ''road acme'' text_offers = [harbour_job] \<and>
   textStage ''road'' text_offers = [harbour_job, bike_product] \<and>
   textStage ''zinc'' text_offers = [] \<and>
   textStage ''   '' text_offers = text_offers"
proof -
  have s: "textStage q text_offers = filter (query_matches q) text_offers"
    if "trim q \<noteq> []" for q
    using text_stage_substring[of q text_offers] that by simp
  have b: "textStage q text_offers = text_offers" if "trim q = []" for q
    using text_stage_substring[of q text_offers] that by simp
  have t: "trim ''WELD'' \<noteq> []" "trim ''hedges'' \<noteq> []" "trim ''mig tig'' \<noteq> []"
    "trim ''acme'' \<noteq> []" "trim ''green'' \<noteq> []" "trim ''velo'' \<noteq> []"
    "trim ''road acme'' \<noteq> []" "trim ''road'' \<noteq> []" "trim ''zinc'' \<noteq> []"
    "trim ''   '' = []"
    by (simp_all add: trim_def is_space_def code_unit_def)
  have 1: "filter (query_matches ''WELD'') text_offers = [harbour_job]" by code_simp
  have 2: "filter (query_matches ''hedges'') text_offers = [garden_service]" by code_simp
  have 3: "filter (query_matches ''mig tig'') text_offers = [harbour_job]" by code_simp
  have 4: "filter (query_matches ''acme'') text_offers = [harbour_job]" by code_simp
  have 5: "filter (query_matches ''green'') text_offers = [garden_service]" by code_simp
  have 6: "filter (query_matches ''velo'') text_offers = [bike_product]" by code_simp
  have 7: "filter (query_matches ''road acme'') text_offers = [harbour_job]" by code_simp
  have 8: "filter (query_matches ''road'') text_offers = [harbour_job, bike_product]"
    by code_simp
  have 9: "filter (query_matches ''zinc'') text_offers = []" by code_simp
  show ?thesis
    by (simp only: s[OF t(1)] s[OF t(2)] s[OF t(3)] s[OF t(4)] s[OF t(5)] s[OF t(6)]
        s[OF t(7)] s[OF t(8)] s[OF t(9)] b[OF t(10)] 1 2 3 4 5 6 7 8 9 simp_thms)
qed

section \<open>The pipeline\<close>

lemma filteredOffers_filter:
  "filteredOffers today q af c offers = filter (keeps today q af c) offers"
proof -
  have 1: "typeStage af xs = filter (\<lambda>offer. af = All \<or> Only (offer_type offer) = af) xs" for xs
    by (simp add: typeStage_def)
  have 2: "proximityStage c xs =
      filter (\<lambda>offer. case c of None \<Rightarrow> True | Some p \<Rightarrow> withinRadius p offer) xs" for xs
    by (cases c) (simp_all add: proximityStage_def)
  have 3: "textStage q xs =
      filter (\<lambda>offer. trim q = [] \<or> matchesQuery (toLowerCase q) offer) xs" for xs
    by (simp add: textStage_def)
  show ?thesis
    unfolding filteredOffers_def Let_def expiryStage_def 1 2 3 filter_filter keeps_def
    by (rule filter_cong) auto
qed

text \<open>
  Claim C5. The feed filter applies all four stages, and its result is a subsequence
  of the input: the offers that pass the four stages, in their original order.
\<close>

theorem pipeline_stable_subsequence:
  "filteredOffers today q af c offers =
     textStage q (proximityStage c (typeStage af (expiryStage today offers))) \<and>
   filteredOffers today q af c offers = filter (keeps today q af c) offers \<and>
   subseq (filteredOffers today q af c offers) offers"
proof -
  have a: "filteredOffers today q af c offers =
     textStage q (proximityStage c (typeStage af (expiryStage today offers)))"
    by (simp add: filteredOffers_def)
  have b: "filteredOffers today q af c offers = filter (keeps today q af c) offers"
    by (rule filteredOffers_filter)
  have "subseq (filteredOffers today q af c offers) offers"
    unfolding b by simp
  with a b show ?thesis by blast
qed

theorem pipeline_scenario_witness:
  "filteredOffers june_first_2024 '''' All None
     [sample_job ''1'' (Some ''2099-01-01'') None, sample_job ''2'' (Some ''2000-01-01'') None]
   = [sample_job ''1'' (Some ''2099-01-01'') None]"
proof -
  have "filter (keeps june_first_2024 '''' All None)
     [sample_job ''1'' (Some ''2099-01-01'') None, sample_job ''2'' (Some ''2000-01-01'') None]
   = [sample_job ''1'' (Some ''2099-01-01'') None]"
    by (simp add: keeps_def trim_def isActive_def sample_defs parse_defs date_defs)
  moreover have "filteredOffers june_first_2024 '''' All None
     [sample_job ''1'' (Some ''2099-01-01'') None, sample_job ''2'' (Some ''2000-01-01'') None]
   = filter (keeps june_first_2024 '''' All None)
     [sample_job ''1'' (Some ''2099-01-01'') None, sample_job ''2'' (Some ''2000-01-01'') None]"
    using pipeline_stable_subsequence[of june_first_2024 "''''" All None
        "[sample_job ''1'' (Some ''2099-01-01'') None, sample_job ''2'' (Some ''2000-01-01'') None]"]
    by blast
  ultimately show ?thesis by (simp only:)
qed

text \<open>
  Claim C6. The feed filter is idempotent: with the same parameters, filtering the
  filtered list changes nothing.
\<close>

theorem pipeline_idempotent:
  "filteredOffers today q af c (filteredOffers today q af c offers) =
   filteredOffers today q af c offers"
  by (simp add: filteredOffers_filter)

section \<open>The cache\<close>

lemmas js_defs = return_js_def throw_js_def bind_js_def try_catch_def Date_now_def cache_get_def
  cache_set_def cache_delete_def localStorage_getItem_def localStorage_setItem_def
  localStorage_removeItem_def console_error_def JSON_stringify_def JSON_parse_def

lemmas ai_defs = generateContent_def parse_response_def get_prop_def or_else_def Let_def

lemma entry_eta: "\<lparr>val = val (e::entry), expiry = expiry e\<rparr> = e"
  by (cases e) simp

text \<open>The two functions written out on the state.\<close>

lemma getFromLocalStorage_eq:
  "getFromLocalStorage key w =
     (if storage_disabled w
      then (Inr JNull, w\<lparr>console := console w @ [''Error reading from localStorage cache'']\<rparr>)
      else case localStorage w (LOCAL_STORAGE_CACHE_PREFIX @ key) of
             None \<Rightarrow> (Inr JNull, w)
           | Some BrokenText \<Rightarrow>
               (Inr JNull, w\<lparr>console := console w @ [''Error reading from localStorage cache'']\<rparr>)
           | Some (EntryText e) \<Rightarrow>
               if expiry e > clock w then (Inr (val e), w\<lparr>cache := (cache w)(key \<mapsto> e)\<rparr>)
               else (Inr JNull,
                     w\<lparr>localStorage := (localStorage w)(LOCAL_STORAGE_CACHE_PREFIX @ key := None)\<rparr>))"
  by (simp add: getFromLocalStorage_def js_defs entry_eta split: option.split stored.split)

lemma getFromCache_eq:
  "getFromCache key w =
     (case cache w key of
        None \<Rightarrow> getFromLocalStorage key w
      | Some e \<Rightarrow>
          if expiry e > clock w then (Inr (val e), w)
          else getFromLocalStorage key (w\<lparr>cache := (cache w)(key := None)\<rparr>))"
  by (simp add: getFromCache_def js_defs split: option.split)

lemma setInCache_eq:
  "setInCache key v w =
     (if storage_disabled w \<or> storage_full w
      then (Inr (), w\<lparr>cache := (cache w)(key \<mapsto> \<lparr>val = v, expiry = clock w + CACHE_TTL\<rparr>),
                      console := console w @ [''Error writing to localStorage cache'']\<rparr>)
      else (Inr (), w\<lparr>cache := (cache w)(key \<mapsto> \<lparr>val = v, expiry = clock w + CACHE_TTL\<rparr>),
                      localStorage := (localStorage w)(LOCAL_STORAGE_CACHE_PREFIX @ key \<mapsto>
                         EntryText \<lparr>val = v, expiry = clock w + CACHE_TTL\<rparr>)\<rparr>))"
  by (simp add: setInCache_def js_defs Let_def)

text \<open>Neither function throws.\<close>

lemma setInCache_returns: "fst (setInCache key v w) = Inr ()"
  by (simp add: setInCache_eq)

lemma getFromCache_total: "\<exists>v w'. getFromCache key w = (Inr v, w')"
  by (simp add: getFromCache_eq getFromLocalStorage_eq split: option.split stored.split)

lemma setInCache_cache:
  "cache (snd (setInCache key v w)) = (cache w)(key \<mapsto> \<lparr>val = v, expiry = clock w + CACHE_TTL\<rparr>)"
  by (simp add: setInCache_eq)

lemma get_fresh:
  assumes "cache w key = Some e" "clock w < expiry e"
  shows "getFromCache key w = (Inr (val e), w)"
  using assms by (simp add: getFromCache_eq)

lemma get_after_set_within:
  assumes "t < clock w + CACHE_TTL"
  shows "getFromCache key (at_time t (snd (setInCache key v w))) =
         (Inr v, at_time t (snd (setInCache key v w)))"
proof -
  let ?w1 = "at_time t (snd (setInCache key v w))"
  have "cache ?w1 key = Some \<lparr>val = v, expiry = clock w + CACHE_TTL\<rparr>"
    by (simp add: at_time_def setInCache_cache)
  moreover have "clock ?w1 < expiry \<lparr>val = v, expiry = clock w + CACHE_TTL\<rparr>"
    using assms by (simp add: at_time_def)
  ultimately show ?thesis using get_fresh[of ?w1 key] by fastforce
qed

lemma get_after_set_expired:
  assumes "clock w + CACHE_TTL \<le> t" "\<not> storage_disabled w" "\<not> storage_full w"
  shows "fst (getFromCache key (at_time t (snd (setInCache key v w)))) = Inr JNull \<and>
     cache (snd (getFromCache key (at_time t (snd (setInCache key v w))))) key = None \<and>
     localStorage (snd (getFromCache key (at_time t (snd (setInCache key v w)))))
           (LOCAL_STORAGE_CACHE_PREFIX @ key) = None"
  using assms by (simp add: setInCache_eq at_time_def getFromCache_eq getFromLocalStorage_eq)

lemma get_promotes:
  assumes "case cache w key of None \<Rightarrow> True | Some e0 \<Rightarrow> expiry e0 \<le> clock w"
    "\<not> storage_disabled w"
    "localStorage w (LOCAL_STORAGE_CACHE_PREFIX @ key) = Some (EntryText e)"
    "clock w < expiry e"
  shows "fst (getFromCache key w) = Inr (val e) \<and> cache (snd (getFromCache key w)) key = Some e"
  using assms by (auto simp add: getFromCache_eq getFromLocalStorage_eq split: option.splits)

text \<open>
  Claim C2. After \<open>set(k, v)\<close>, \<open>get(k)\<close> returns \<open>v\<close> while less than the TTL of five
  minutes has elapsed. Once the TTL has elapsed, \<open>get(k)\<close> returns absent and leaves no
  entry for \<open>k\<close> in the in-memory tier or in the durable tier (the durable tier working).
  A durable-tier hit with an unexpired entry, the memory tier holding no live entry, is
  promoted into the memory tier and returned.
\<close>

theorem cache_get_after_set:
  "CACHE_TTL = 5 * 60 * 1000 \<and>
   fst (setInCache key v w) = Inr () \<and>
   (t < clock w + CACHE_TTL \<longrightarrow>
      fst (getFromCache key (at_time t (snd (setInCache key v w)))) = Inr v) \<and>
   (clock w + CACHE_TTL \<le> t \<and> \<not> storage_disabled w \<and> \<not> storage_full w \<longrightarrow>
      fst (getFromCache key (at_time t (snd (setInCache key v w)))) = Inr JNull \<and>
      cache (snd (getFromCache key (at_time t (snd (setInCache key v w))))) key = None \<and>
      localStorage (snd (getFromCache key (at_time t (snd (setInCache key v w)))))
        (LOCAL_STORAGE_CACHE_PREFIX @ key) = None) \<and>
   ((case cache w' key of None \<Rightarrow> True | Some e0 \<Rightarrow> expiry e0 \<le> clock w') \<and>
    \<not> storage_disabled w' \<and>
    localStorage w' (LOCAL_STORAGE_CACHE_PREFIX @ key) = Some (EntryText e) \<and>
    clock w' < expiry e \<longrightarrow>
      fst (getFromCache key w') = Inr (val e) \<and>
      cache (snd (getFromCache key w')) key = Some e)"
proof -
  have 1: "t < clock w + CACHE_TTL \<longrightarrow>
      fst (getFromCache key (at_time t (snd (setInCache key v w)))) = Inr v"
    by (simp add: get_after_set_within)
  show ?thesis
    using 1 get_after_set_expired[of w t key v] get_promotes[of w' key e]
    by (simp add: CACHE_TTL_def setInCache_returns)
qed

theorem cache_get_after_set_witness:
  "clock fresh_world + 1000 < clock fresh_world + CACHE_TTL \<and>
   fst (getFromCache ''geocode:paris''
         (at_time (clock fresh_world + 1000)
            (snd (setInCache ''geocode:paris'' (JStr ''Paris'') fresh_world)))) = Inr (JStr ''Paris'') \<and>
   clock fresh_world + CACHE_TTL \<le> clock fresh_world + 300000 \<and>
   \<not> storage_disabled fresh_world \<and> \<not> storage_full fresh_world \<and>
   fst (getFromCache ''geocode:paris''
         (at_time (clock fresh_world + 300000)
            (snd (setInCache ''geocode:paris'' (JStr ''Paris'') fresh_world)))) = Inr JNull \<and>
   cache reloaded_world ''geocode:paris'' = None \<and>
   fst (getFromCache ''geocode:paris'' reloaded_world) =
     Inr (JObj [(''lat'', JNum 48.86), (''lng'', JNum 2.35)]) \<and>
   cache (snd (getFromCache ''geocode:paris'' reloaded_world)) ''geocode:paris'' =
     Some \<lparr>val = JObj [(''lat'', JNum 48.86), (''lng'', JNum 2.35)], expiry = 1717200060000\<rparr>"
  using
    cache_get_after_set[of "''geocode:paris''" "JStr ''Paris''" fresh_world
      "clock fresh_world + 1000" reloaded_world
      "\<lparr>val = JObj [(''lat'', JNum 48.86), (''lng'', JNum 2.35)], expiry = 1717200060000\<rparr>"]
    cache_get_after_set[of "''geocode:paris''" "JStr ''Paris''" fresh_world
      "clock fresh_world + 300000" reloaded_world
      "\<lparr>val = JObj [(''lat'', JNum 48.86), (''lng'', JNum 2.35)], expiry = 1717200060000\<rparr>"]
  by (simp add: fresh_world_def reloaded_world_def CACHE_TTL_def)

text \<open>
  Claim C8. If the write to the durable store fails, \<open>set(key, value)\<close> still records
  the entry in the memory tier with expiry now + TTL and returns normally, the durable
  tier is left as it was, and a \<open>get(key)\<close> within the TTL returns the value.
\<close>

theorem set_survives_storage_failure:
  assumes "fst (localStorage_setItem (LOCAL_STORAGE_CACHE_PREFIX @ key)
             (JSON_stringify \<lparr>val = v, expiry = clock w + CACHE_TTL\<rparr>) w) = Inl err"
  shows "fst (setInCache key v w) = Inr () \<and>
     cache (snd (setInCache key v w)) key = Some \<lparr>val = v, expiry = clock w + CACHE_TTL\<rparr> \<and>
     localStorage (snd (setInCache key v w)) = localStorage w \<and>
     (t < clock w + CACHE_TTL \<longrightarrow>
        fst (getFromCache key (at_time t (snd (setInCache key v w)))) = Inr v)"
proof -
  from assms have f: "storage_disabled w \<or> storage_full w"
    by (simp add: localStorage_setItem_def split: if_splits)
  have "localStorage (snd (setInCache key v w)) = localStorage w"
    using f by (simp add: setInCache_eq)
  then show ?thesis
    by (simp add: setInCache_returns setInCache_cache get_after_set_within)
qed

theorem set_survives_storage_failure_witness:
  "fst (localStorage_setItem (LOCAL_STORAGE_CACHE_PREFIX @ ''geocode:paris'')
          (JSON_stringify \<lparr>val = JStr ''Paris'',
             expiry = clock (fresh_world\<lparr>storage_full := True\<rparr>) + CACHE_TTL\<rparr>)
          (fresh_world\<lparr>storage_full := True\<rparr>)) = Inl QuotaExceededError \<and>
   fst (setInCache ''geocode:paris'' (JStr ''Paris'') (fresh_world\<lparr>storage_full := True\<rparr>)) = Inr () \<and>
   localStorage (snd (setInCache ''geocode:paris'' (JStr ''Paris'')
       (fresh_world\<lparr>storage_full := True\<rparr>))) = Map.empty \<and>
   fst (getFromCache ''geocode:paris''
         (at_time (clock fresh_world + 299999)
            (snd (setInCache ''geocode:paris'' (JStr ''Paris'')
               (fresh_world\<lparr>storage_full := True\<rparr>))))) = Inr (JStr ''Paris'')"
proof -
  have h: "fst (localStorage_setItem (LOCAL_STORAGE_CACHE_PREFIX @ ''geocode:paris'')
          (JSON_stringify \<lparr>val = JStr ''Paris'',
             expiry = clock (fresh_world\<lparr>storage_full := True\<rparr>) + CACHE_TTL\<rparr>)
          (fresh_world\<lparr>storage_full := True\<rparr>)) = Inl QuotaExceededError"
    by (simp add: localStorage_setItem_def fresh_world_def)
  show ?thesis
    using h set_survives_storage_failure[OF h, of "clock fresh_world + 299999"]
    by (simp add: fresh_world_def CACHE_TTL_def)
qed

section \<open>The lookups\<close>


lemma getFromCache_requests: "requests (snd (getFromCache key w)) = requests w"
  by (simp add: getFromCache_eq getFromLocalStorage_eq split: option.split stored.split)

lemma getFromCache_uncached:
  assumes "uncached key w"
  shows "\<exists>msgs. getFromCache key w = (Inr JNull, w\<lparr>console := console w @ msgs\<rparr>)"
proof -
  from assms have c: "cache w key = None" by (simp add: uncached_def)
  show ?thesis
  proof (cases "storage_disabled w")
    case True
    with c have "getFromCache key w =
        (Inr JNull, w\<lparr>console := console w @ [''Error reading from localStorage cache'']\<rparr>)"
      by (simp add: getFromCache_eq getFromLocalStorage_eq)
    then show ?thesis by blast
  next
    case False
    with assms have "localStorage w (LOCAL_STORAGE_CACHE_PREFIX @ key) = None \<or>
       localStorage w (LOCAL_STORAGE_CACHE_PREFIX @ key) = Some BrokenText"
      by (auto simp: uncached_def split: option.splits stored.splits)
    then show ?thesis
    proof
      assume "localStorage w (LOCAL_STORAGE_CACHE_PREFIX @ key) = None"
      with c False have "getFromCache key w = (Inr JNull, w\<lparr>console := console w @ []\<rparr>)"
        by (simp add: getFromCache_eq getFromLocalStorage_eq)
      then show ?thesis by blast
    next
      assume "localStorage w (LOCAL_STORAGE_CACHE_PREFIX @ key) = Some BrokenText"
      with c False have "getFromCache key w =
          (Inr JNull, w\<lparr>console := console w @ [''Error reading from localStorage cache'']\<rparr>)"
        by (simp add: getFromCache_eq getFromLocalStorage_eq)
      then show ?thesis by blast
    qed
  qed
qed

lemma missed_uncached:
  assumes "missed key w" "stored_truthy key w"
  shows "uncached key (snd (getFromCache key w))"
  using assms
  by (auto simp: missed_def stored_truthy_def uncached_def getFromCache_eq getFromLocalStorage_eq
      split: option.splits stored.splits if_splits)


lemma rg_try_fail:
  assumes "\<not> names_location reply"
  shows "fst (reverseGeocode_try key coords reply latency w) = Inr JNull"
    and "cache (snd (reverseGeocode_try key coords reply latency w)) = cache w"
    and "localStorage (snd (reverseGeocode_try key coords reply latency w)) = localStorage w"
    and "storage_disabled (snd (reverseGeocode_try key coords reply latency w)) = storage_disabled w"
proof -
  have "fst (reverseGeocode_try key coords reply latency w) = Inr JNull \<and>
    cache (snd (reverseGeocode_try key coords reply latency w)) = cache w \<and>
    localStorage (snd (reverseGeocode_try key coords reply latency w)) = localStorage w \<and>
    storage_disabled (snd (reverseGeocode_try key coords reply latency w)) = storage_disabled w"
  proof (cases reply)
    case (Json j)
    show ?thesis
    proof (cases j)
      case (JObj kvs)
      with Json assms have "or_else (map_of kvs ''locationName'') JNull = JNull"
        by (auto simp: names_location_def or_else_def split: option.splits)
      with Json JObj show ?thesis
        by (simp add: reverseGeocode_try_def js_defs generateContent_def parse_response_def get_prop_def)
    qed (simp_all add: Json reverseGeocode_try_def js_defs ai_defs)
  qed (simp_all add: reverseGeocode_try_def js_defs ai_defs)
  then show "fst (reverseGeocode_try key coords reply latency w) = Inr JNull"
    and "cache (snd (reverseGeocode_try key coords reply latency w)) = cache w"
    and "localStorage (snd (reverseGeocode_try key coords reply latency w)) = localStorage w"
    and "storage_disabled (snd (reverseGeocode_try key coords reply latency w)) = storage_disabled w"
    by simp_all
qed

lemma rg_try_requests:
  "requests (snd (reverseGeocode_try key coords reply latency w)) =
     requests w @ [ReverseGeocodePrompt (lat coords) (lng coords)]"
proof (cases reply)
  case (Json j)
  show ?thesis
    by (cases j)
      (simp_all add: Json reverseGeocode_try_def js_defs ai_defs setInCache_eq split: option.split)
qed (simp_all add: reverseGeocode_try_def js_defs ai_defs)

lemma rg_try_ok:
  assumes "names_location reply"
  shows "\<exists>v. truthy v \<and> fst (reverseGeocode_try key coords reply latency w) = Inr v \<and>
     cache (snd (reverseGeocode_try key coords reply latency w)) key =
       Some \<lparr>val = v, expiry = clock w + int latency + CACHE_TTL\<rparr>"
proof -
  from assms obtain kvs v where r: "reply = Json (JObj kvs)"
    and v: "map_of kvs ''locationName'' = Some v" "truthy v"
    by (auto simp: names_location_def split: ai_reply.splits json.splits option.splits)
  then have "fst (reverseGeocode_try key coords reply latency w) = Inr v \<and>
     cache (snd (reverseGeocode_try key coords reply latency w)) key =
       Some \<lparr>val = v, expiry = clock w + int latency + CACHE_TTL\<rparr>"
    by (simp add: reverseGeocode_try_def js_defs ai_defs setInCache_eq)
  with v show ?thesis by blast
qed

lemma gc_try_fail:
  assumes "\<not> has_coordinates reply"
  shows "fst (geocodeLocation_try key addr reply latency w) = Inr JNull"
    and "cache (snd (geocodeLocation_try key addr reply latency w)) = cache w"
    and "localStorage (snd (geocodeLocation_try key addr reply latency w)) = localStorage w"
    and "storage_disabled (snd (geocodeLocation_try key addr reply latency w)) = storage_disabled w"
proof -
  have "fst (geocodeLocation_try key addr reply latency w) = Inr JNull \<and>
    cache (snd (geocodeLocation_try key addr reply latency w)) = cache w \<and>
    localStorage (snd (geocodeLocation_try key addr reply latency w)) = localStorage w \<and>
    storage_disabled (snd (geocodeLocation_try key addr reply latency w)) = storage_disabled w"
  proof (cases reply)
    case (Json j)
    show ?thesis
    proof (cases j)
      case (JObj kvs)
      with Json assms have "\<not> (is_number (map_of kvs ''lat'') \<and> is_number (map_of kvs ''lng''))"
        by (simp add: has_coordinates_def)
      with Json JObj show ?thesis
        by (auto simp add: geocodeLocation_try_def js_defs generateContent_def parse_response_def get_prop_def)
    qed (simp_all add: Json geocodeLocation_try_def js_defs ai_defs is_number_def)
  qed (simp_all add: geocodeLocation_try_def js_defs ai_defs)
  then show "fst (geocodeLocation_try key addr reply latency w) = Inr JNull"
    and "cache (snd (geocodeLocation_try key addr reply latency w)) = cache w"
    and "localStorage (snd (geocodeLocation_try key addr reply latency w)) = localStorage w"
    and "storage_disabled (snd (geocodeLocation_try key addr reply latency w)) = storage_disabled w"
    by simp_all
qed

lemma gc_try_requests:
  "requests (snd (geocodeLocation_try key addr reply latency w)) = requests w @ [GeocodePrompt addr]"
proof (cases reply)
  case (Json j)
  show ?thesis
    by (cases j)
      (simp_all add: Json geocodeLocation_try_def js_defs ai_defs setInCache_eq is_number_def split: option.split)
qed (simp_all add: geocodeLocation_try_def js_defs ai_defs)

lemma gc_try_ok:
  assumes "has_coordinates reply"
  shows "\<exists>v. reply = Json v \<and> truthy v \<and> fst (geocodeLocation_try key addr reply latency w) = Inr v \<and>
     cache (snd (geocodeLocation_try key addr reply latency w)) key =
       Some \<lparr>val = v, expiry = clock w + int latency + CACHE_TTL\<rparr>"
proof -
  from assms obtain kvs where r: "reply = Json (JObj kvs)"
    and v: "is_number (map_of kvs ''lat'')" "is_number (map_of kvs ''lng'')"
    by (auto simp: has_coordinates_def split: ai_reply.splits json.splits)
  then have "fst (geocodeLocation_try key addr reply latency w) = Inr (JObj kvs) \<and>
     cache (snd (geocodeLocation_try key addr reply latency w)) key =
       Some \<lparr>val = JObj kvs, expiry = clock w + int latency + CACHE_TTL\<rparr>"
    by (simp add: geocodeLocation_try_def js_defs ai_defs setInCache_eq)
  with r show ?thesis by simp
qed

lemma reverseGeocode_eq:
  assumes "getFromCache (reverseGeocode_key coords) w = (Inr cached, w1)"
  shows "reverseGeocode coords reply latency w =
     (if truthy cached then (Inr cached, w1)
      else reverseGeocode_try (reverseGeocode_key coords) coords reply latency w1)"
  using assms by (simp add: reverseGeocode_def bind_js_def return_js_def Let_def)

lemma geocodeLocation_eq:
  assumes "getFromCache (geocode_key addr) w = (Inr cached, w1)" "trim addr \<noteq> []"
  shows "geocodeLocation addr reply latency w =
     (if truthy cached then (Inr cached, w1)
      else geocodeLocation_try (geocode_key addr) addr reply latency w1)"
  using assms by (simp add: geocodeLocation_def bind_js_def return_js_def Let_def)

lemma rg_unchanged:
  assumes "\<not> names_location reply"
  shows "cache (snd (reverseGeocode coords reply latency w)) =
           cache (snd (getFromCache (reverseGeocode_key coords) w)) \<and>
         localStorage (snd (reverseGeocode coords reply latency w)) =
           localStorage (snd (getFromCache (reverseGeocode_key coords) w))"
proof -
  obtain cached w1 where g: "getFromCache (reverseGeocode_key coords) w = (Inr cached, w1)"
    using getFromCache_total by blast
  show ?thesis
    unfolding reverseGeocode_eq[OF g] g
    by (simp add: rg_try_fail[OF assms])
qed

lemma gc_unchanged:
  assumes "\<not> has_coordinates reply" "trim addr \<noteq> []"
  shows "cache (snd (geocodeLocation addr reply latency w)) =
           cache (snd (getFromCache (geocode_key addr) w)) \<and>
         localStorage (snd (geocodeLocation addr reply latency w)) =
           localStorage (snd (getFromCache (geocode_key addr) w))"
proof -
  obtain cached w1 where g: "getFromCache (geocode_key addr) w = (Inr cached, w1)"
    using getFromCache_total by blast
  show ?thesis
    unfolding geocodeLocation_eq[OF g assms(2)] g
    by (simp add: gc_try_fail[OF assms(1)])
qed

lemma uncached_cong:
  assumes "cache w' = cache w" "localStorage w' = localStorage w"
    "storage_disabled w' = storage_disabled w"
  shows "uncached key w' = uncached key w"
  using assms by (simp add: uncached_def)

lemma uncached_at_time: "uncached key (at_time t w) = uncached key w"
  by (simp add: uncached_def at_time_def)

lemma requests_at_time: "requests (at_time t w) = requests w"
  by (simp add: at_time_def)

lemma rg_next:
  assumes fail: "\<not> names_location reply"
    and miss: "missed (reverseGeocode_key coords) w"
    and inv: "stored_truthy (reverseGeocode_key coords) w"
  shows "requests (snd (reverseGeocode coords reply' latency'
            (at_time t (snd (reverseGeocode coords reply latency w))))) =
         requests w @ [ReverseGeocodePrompt (lat coords) (lng coords),
                       ReverseGeocodePrompt (lat coords) (lng coords)]"
proof -
  let ?k = "reverseGeocode_key coords"
  obtain cached w1 where g: "getFromCache ?k w = (Inr cached, w1)"
    using getFromCache_total by blast
  have nt: "\<not> truthy cached" using miss g by (simp add: missed_def)
  have u1: "uncached ?k w1" using missed_uncached[OF miss inv] g by simp
  have r1: "requests w1 = requests w" using getFromCache_requests[of ?k w] g by simp
  define w2 where "w2 = snd (reverseGeocode_try ?k coords reply latency w1)"
  have first: "snd (reverseGeocode coords reply latency w) = w2"
    using nt by (simp add: reverseGeocode_eq[OF g] w2_def)
  have u2: "uncached ?k w2"
    unfolding w2_def using u1 rg_try_fail(2-4)[OF fail, of ?k coords latency w1]
    by (simp add: uncached_def)
  have r2: "requests w2 = requests w @ [ReverseGeocodePrompt (lat coords) (lng coords)]"
    unfolding w2_def by (simp add: rg_try_requests r1)
  let ?w3 = "at_time t w2"
  have u3: "uncached ?k ?w3" using u2 by (simp add: uncached_at_time)
  obtain msgs where g3: "getFromCache ?k ?w3 = (Inr JNull, ?w3\<lparr>console := console ?w3 @ msgs\<rparr>)"
    using getFromCache_uncached[OF u3] by blast
  have "snd (reverseGeocode coords reply' latency' ?w3) =
      snd (reverseGeocode_try ?k coords reply' latency' (?w3\<lparr>console := console ?w3 @ msgs\<rparr>))"
    by (simp add: reverseGeocode_eq[OF g3])
  then show ?thesis
    unfolding first by (simp add: rg_try_requests requests_at_time r2)
qed

lemma gc_next:
  assumes fail: "\<not> has_coordinates reply"
    and ne: "trim addr \<noteq> []"
    and miss: "missed (geocode_key addr) w"
    and inv: "stored_truthy (geocode_key addr) w"
  shows "requests (snd (geocodeLocation addr reply' latency'
            (at_time t (snd (geocodeLocation addr reply latency w))))) =
         requests w @ [GeocodePrompt addr, GeocodePrompt addr]"
proof -
  let ?k = "geocode_key addr"
  obtain cached w1 where g: "getFromCache ?k w = (Inr cached, w1)"
    using getFromCache_total by blast
  have nt: "\<not> truthy cached" using miss g by (simp add: missed_def)
  have u1: "uncached ?k w1" using missed_uncached[OF miss inv] g by simp
  have r1: "requests w1 = requests w" using getFromCache_requests[of ?k w] g by simp
  define w2 where "w2 = snd (geocodeLocation_try ?k addr reply latency w1)"
  have first: "snd (geocodeLocation addr reply latency w) = w2"
    using nt by (simp add: geocodeLocation_eq[OF g ne] w2_def)
  have u2: "uncached ?k w2"
    unfolding w2_def using u1 gc_try_fail(2-4)[OF fail, of ?k addr latency w1]
    by (simp add: uncached_def)
  have r2: "requests w2 = requests w @ [GeocodePrompt addr]"
    unfolding w2_def by (simp add: gc_try_requests r1)
  let ?w3 = "at_time t w2"
  have u3: "uncached ?k ?w3" using u2 by (simp add: uncached_at_time)
  obtain msgs where g3: "getFromCache ?k ?w3 = (Inr JNull, ?w3\<lparr>console := console ?w3 @ msgs\<rparr>)"
    using getFromCache_uncached[OF u3] by blast
  have "snd (geocodeLocation addr reply' latency' ?w3) =
      snd (geocodeLocation_try ?k addr reply' latency' (?w3\<lparr>console := console ?w3 @ msgs\<rparr>))"
    by (simp add: geocodeLocation_eq[OF g3 ne])
  then show ?thesis
    unfolding first by (simp add: gc_try_requests requests_at_time r2)
qed

lemma setInCache_truthy:
  assumes "truthy v" "stored_truthy k w"
  shows "stored_truthy k (snd (setInCache key v w))"
  using assms by (auto simp: stored_truthy_def setInCache_eq split: option.splits stored.splits)

lemma getFromCache_truthy:
  assumes "stored_truthy k w"
  shows "stored_truthy k (snd (getFromCache key w))"
  using assms
  by (auto simp: stored_truthy_def getFromCache_eq getFromLocalStorage_eq
      split: option.splits stored.splits if_splits)

lemma getFromCache_result_truthy_inv:
  assumes "stored_truthy key w" "getFromCache key w = (Inr v, w1)" "v \<noteq> JNull"
  shows "truthy v"
  using assms
  by (auto simp: stored_truthy_def getFromCache_eq getFromLocalStorage_eq
      split: option.splits stored.splits if_splits)

lemma stored_truthy_cong:
  assumes "cache w' = cache w" "localStorage w' = localStorage w"
  shows "stored_truthy k w' = stored_truthy k w"
  using assms by (simp add: stored_truthy_def)

lemma rg_try_truthy:
  assumes "stored_truthy k w"
  shows "stored_truthy k (snd (reverseGeocode_try key coords reply latency w))"
proof (cases "names_location reply")
  case False
  then show ?thesis using assms rg_try_fail(2,3)[OF False, of key coords latency w]
    by (simp add: stored_truthy_def)
next
  case True
  then obtain kvs v where r: "reply = Json (JObj kvs)"
    and v: "map_of kvs ''locationName'' = Some v" "truthy v"
    by (auto simp: names_location_def split: ai_reply.splits json.splits option.splits)
  let ?w = "w\<lparr>requests := requests w @ [ReverseGeocodePrompt (lat coords) (lng coords)],
              clock := clock w + int latency\<rparr>"
  have "snd (reverseGeocode_try key coords reply latency w) = snd (setInCache key v ?w)"
    using r v by (simp add: reverseGeocode_try_def js_defs ai_defs prod.case_eq_if setInCache_returns)
  moreover have "stored_truthy k ?w" using assms by (simp add: stored_truthy_def)
  ultimately show ?thesis using setInCache_truthy[OF v(2)] by simp
qed

lemma reverseGeocode_truthy:
  assumes "stored_truthy k w"
  shows "stored_truthy k (snd (reverseGeocode coords reply latency w))"
proof -
  obtain cached w1 where g: "getFromCache (reverseGeocode_key coords) w = (Inr cached, w1)"
    using getFromCache_total by blast
  have "stored_truthy k w1" using getFromCache_truthy[OF assms, of "reverseGeocode_key coords"] g by simp
  then show ?thesis by (simp add: reverseGeocode_eq[OF g] rg_try_truthy)
qed

lemma or_else_truthy: "truthy d \<Longrightarrow> truthy (or_else p d)"
  by (simp add: or_else_def split: option.split)

lemma sg_try_truthy:
  assumes "stored_truthy k w"
  shows "stored_truthy k (snd (getLocationSuggestions_try key query reply latency w))"
proof -
  let ?w = "w\<lparr>requests := requests w @ [SuggestionsPrompt query], clock := clock w + int latency\<rparr>"
  have s: "stored_truthy k ?w" using assms by (simp add: stored_truthy_def)
  have l: "stored_truthy k (?w\<lparr>console := console ?w @ msgs\<rparr>)" for msgs
    using assms by (simp add: stored_truthy_def)
  show ?thesis
  proof (cases reply)
    case (Json j)
    show ?thesis
    proof (cases "j = JNull")
      case True
      with Json show ?thesis using l
        by (simp add: getLocationSuggestions_try_def js_defs ai_defs)
    next
      case False
      then obtain p where p: "get_prop j ''suggestions'' ?w = (Inr p, ?w)"
        by (cases j) (simp_all add: get_prop_def return_js_def)
      have "snd (getLocationSuggestions_try key query reply latency w) =
          snd (setInCache key (or_else p (JArr [])) ?w)"
        using Json p
        by (simp add: getLocationSuggestions_try_def js_defs generateContent_def parse_response_def
            Let_def prod.case_eq_if setInCache_returns)
      then show ?thesis
        using setInCache_truthy[where v = "or_else p (JArr [])" and k = k and w = ?w and key = key]
          or_else_truthy[of "JArr []" p] s
        by simp
    qed
  qed (use l in \<open>simp_all add: getLocationSuggestions_try_def js_defs ai_defs\<close>)
qed

lemma getLocationSuggestions_truthy:
  assumes "stored_truthy k w"
  shows "stored_truthy k (snd (getLocationSuggestions query reply latency w))"
proof (cases "length (trim query) < 3")
  case True
  then show ?thesis using assms by (simp add: getLocationSuggestions_def return_js_def)
next
  case False
  obtain cached w1 where g: "getFromCache (suggestions_key query) w = (Inr cached, w1)"
    using getFromCache_total by blast
  have "stored_truthy k w1"
    using getFromCache_truthy[OF assms, of "suggestions_key query"] g by simp
  then show ?thesis
    using False g
    by (simp add: getLocationSuggestions_def bind_js_def return_js_def Let_def sg_try_truthy)
qed

lemma gc_try_truthy:
  assumes "stored_truthy k w"
  shows "stored_truthy k (snd (geocodeLocation_try key addr reply latency w))"
proof (cases "has_coordinates reply")
  case False
  then show ?thesis using assms gc_try_fail(2,3)[OF False, of key addr latency w]
    by (simp add: stored_truthy_def)
next
  case True
  then obtain kvs where r: "reply = Json (JObj kvs)"
    and v: "is_number (map_of kvs ''lat'')" "is_number (map_of kvs ''lng'')"
    by (auto simp: has_coordinates_def split: ai_reply.splits json.splits)
  let ?w = "w\<lparr>requests := requests w @ [GeocodePrompt addr], clock := clock w + int latency\<rparr>"
  have "snd (geocodeLocation_try key addr reply latency w) = snd (setInCache key (JObj kvs) ?w)"
    using r v
    by (simp add: geocodeLocation_try_def js_defs ai_defs prod.case_eq_if setInCache_returns)
  moreover have "stored_truthy k ?w" using assms by (simp add: stored_truthy_def)
  ultimately show ?thesis using setInCache_truthy[of "JObj kvs" k ?w key] by simp
qed

lemma geocodeLocation_truthy:
  assumes "stored_truthy k w"
  shows "stored_truthy k (snd (geocodeLocation addr reply latency w))"
proof (cases "trim addr = []")
  case True
  then show ?thesis using assms by (simp add: geocodeLocation_def return_js_def)
next
  case False
  obtain cached w1 where g: "getFromCache (geocode_key addr) w = (Inr cached, w1)"
    using getFromCache_total by blast
  have "stored_truthy k w1" using getFromCache_truthy[OF assms, of "geocode_key addr"] g by simp
  then show ?thesis by (simp add: geocodeLocation_eq[OF g False] gc_try_truthy)
qed

text \<open>A reply that names a location is cached on a miss, with the TTL counted from the
  time the reply arrives: the claim about failed lookups is not true for want of any
  caching.\<close>

lemma reverseGeocode_caches_name:
  assumes "names_location reply" "missed (reverseGeocode_key coords) w"
  shows "\<exists>v. truthy v \<and> fst (reverseGeocode coords reply latency w) = Inr v \<and>
     cache (snd (reverseGeocode coords reply latency w)) (reverseGeocode_key coords) =
       Some \<lparr>val = v, expiry = clock w + int latency + CACHE_TTL\<rparr>"
proof -
  obtain cached w1 where g: "getFromCache (reverseGeocode_key coords) w = (Inr cached, w1)"
    using getFromCache_total by blast
  have nt: "\<not> truthy cached" using assms(2) g by (simp add: missed_def)
  have c: "clock w1 = clock w"
    using g by (auto simp: getFromCache_eq getFromLocalStorage_eq
        split: option.splits stored.splits if_splits)
  show ?thesis
    using rg_try_ok[OF assms(1), of "reverseGeocode_key coords" coords latency w1] nt
    by (simp add: reverseGeocode_eq[OF g] c)
qed

lemma geocodeLocation_caches_coordinates:
  assumes "has_coordinates reply" "missed (geocode_key addr) w" "trim addr \<noteq> []"
  shows "\<exists>v. reply = Json v \<and> fst (geocodeLocation addr reply latency w) = Inr v \<and>
     cache (snd (geocodeLocation addr reply latency w)) (geocode_key addr) =
       Some \<lparr>val = v, expiry = clock w + int latency + CACHE_TTL\<rparr>"
proof -
  obtain cached w1 where g: "getFromCache (geocode_key addr) w = (Inr cached, w1)"
    using getFromCache_total by blast
  have nt: "\<not> truthy cached" using assms(2) g by (simp add: missed_def)
  have c: "clock w1 = clock w"
    using g by (auto simp: getFromCache_eq getFromLocalStorage_eq
        split: option.splits stored.splits if_splits)
  show ?thesis
    using gc_try_ok[OF assms(1), of "geocode_key addr" addr latency w1] nt
    by (auto simp add: geocodeLocation_eq[OF g assms(3)] c)
qed

text \<open>A query of three or more characters that misses the cache does call the service.\<close>

lemma sg_try_requests:
  "requests (snd (getLocationSuggestions_try key query reply latency w)) =
     requests w @ [SuggestionsPrompt query]"
proof (cases reply)
  case (Json j)
  show ?thesis
    by (cases j)
      (simp_all add: Json getLocationSuggestions_try_def js_defs ai_defs setInCache_eq)
qed (simp_all add: getLocationSuggestions_try_def js_defs ai_defs)

lemma suggestions_long_calls:
  assumes "\<not> length (trim query) < 3" "missed (suggestions_key query) w"
  shows "requests (snd (getLocationSuggestions query reply latency w)) =
     requests w @ [SuggestionsPrompt query]"
proof -
  obtain cached w1 where g: "getFromCache (suggestions_key query) w = (Inr cached, w1)"
    using getFromCache_total by blast
  have nt: "\<not> truthy cached" using assms(2) g by (simp add: missed_def)
  have r1: "requests w1 = requests w" using getFromCache_requests[of "suggestions_key query" w] g by simp
  show ?thesis
    using assms(1) nt g
    by (simp add: getLocationSuggestions_def bind_js_def Let_def sg_try_requests r1)
qed

text \<open>The key of \<open>reverseGeocode\<close> rounds to two decimals: coordinates that differ
  beyond them share a key.\<close>

lemma reverseGeocode_key_rounds:
  "reverseGeocode_key \<lparr>lat = 1.234, lng = 5.678\<rparr> = ''reverse-geocode:1.23,5.68'' \<and>
   reverseGeocode_key \<lparr>lat = 1.2344, lng = 5.6789\<rparr> = ''reverse-geocode:1.23,5.68''"
  by code_simp

text \<open>
  Claim C9. For a query whose trimmed length is less than 3, \<open>getLocationSuggestions\<close>
  returns the empty list and leaves the state as it was: no call to the suggestion
  service, no read or write of either cache tier.
\<close>

theorem short_query_no_lookup:
  assumes "length (trim query) < 3"
  shows "getLocationSuggestions query reply latency w = (Inr (JArr []), w)"
  using assms by (simp add: getLocationSuggestions_def return_js_def)

theorem short_query_no_lookup_witness:
  "length (trim ''ny'') < 3 \<and>
   getLocationSuggestions ''ny'' (Json (JObj [(''suggestions'', JArr [JStr ''New York, NY''])]))
     120 reloaded_world = (Inr (JArr []), reloaded_world)"
proof -
  have h: "length (trim ''ny'') < 3"
    by (simp add: trim_def is_space_def code_unit_def)
  show ?thesis
    using h short_query_no_lookup[OF h,
        of "Json (JObj [(''suggestions'', JArr [JStr ''New York, NY''])])" 120 reloaded_world]
    by simp
qed

text \<open>
  Claim C10. \<open>reverseGeocode\<close> and \<open>geocodeLocation\<close> never cache a failed lookup. When
  the reply carries no non-null location name (for \<open>reverseGeocode\<close>) or no numeric
  \<open>lat\<close> and \<open>lng\<close> (for \<open>geocodeLocation\<close>, asked about a non-blank address), which covers
  the rejected call, the response without text, the text that is not JSON, \<open>null\<close> and any
  other malformed value, both tiers are after the call as the cache lookup left them;
  and if the lookup had missed, a next call with the same key, at any later reading of
  the clock, sends its request to the service again. The values stored under the key
  are taken to be truthy, as all values these functions store are.
\<close>

theorem failed_lookup_not_cached:
  "(\<not> names_location reply \<longrightarrow>
      cache (snd (reverseGeocode coords reply latency w)) =
        cache (snd (getFromCache (reverseGeocode_key coords) w)) \<and>
      localStorage (snd (reverseGeocode coords reply latency w)) =
        localStorage (snd (getFromCache (reverseGeocode_key coords) w)) \<and>
      (missed (reverseGeocode_key coords) w \<and> stored_truthy (reverseGeocode_key coords) w \<longrightarrow>
         requests (snd (reverseGeocode coords reply' latency'
            (at_time t (snd (reverseGeocode coords reply latency w))))) =
         requests w @ [ReverseGeocodePrompt (lat coords) (lng coords),
                       ReverseGeocodePrompt (lat coords) (lng coords)])) \<and>
   (\<not> has_coordinates reply \<and> trim addr \<noteq> [] \<longrightarrow>
      cache (snd (geocodeLocation addr reply latency w)) =
        cache (snd (getFromCache (geocode_key addr) w)) \<and>
      localStorage (snd (geocodeLocation addr reply latency w)) =
        localStorage (snd (getFromCache (geocode_key addr) w)) \<and>
      (missed (geocode_key addr) w \<and> stored_truthy (geocode_key addr) w \<longrightarrow>
         requests (snd (geocodeLocation addr reply' latency'
            (at_time t (snd (geocodeLocation addr reply latency w))))) =
         requests w @ [GeocodePrompt addr, GeocodePrompt addr]))"
proof -
  have 1: "\<not> names_location reply \<longrightarrow>
      missed (reverseGeocode_key coords) w \<and> stored_truthy (reverseGeocode_key coords) w \<longrightarrow>
         requests (snd (reverseGeocode coords reply' latency'
            (at_time t (snd (reverseGeocode coords reply latency w))))) =
         requests w @ [ReverseGeocodePrompt (lat coords) (lng coords),
                       ReverseGeocodePrompt (lat coords) (lng coords)]"
    using rg_next by blast
  have 2: "\<not> has_coordinates reply \<and> trim addr \<noteq> [] \<longrightarrow>
      missed (geocode_key addr) w \<and> stored_truthy (geocode_key addr) w \<longrightarrow>
         requests (snd (geocodeLocation addr reply' latency'
            (at_time t (snd (geocodeLocation addr reply latency w))))) =
         requests w @ [GeocodePrompt addr, GeocodePrompt addr]"
    using gc_next by blast
  show ?thesis
    using 1 2 rg_unchanged[of reply coords latency w] gc_unchanged[of reply addr latency w]
    by blast
qed

theorem failed_lookup_not_cached_witness:
  "\<not> names_location NotJson \<and> \<not> has_coordinates NotJson \<and> trim ''Paris'' \<noteq> [] \<and>
   missed (reverseGeocode_key manhattan) fresh_world \<and>
   stored_truthy (reverseGeocode_key manhattan) fresh_world \<and>
   missed (geocode_key ''Paris'') fresh_world \<and>
   stored_truthy (geocode_key ''Paris'') fresh_world \<and>
   cache (snd (reverseGeocode manhattan NotJson 120 fresh_world)) = Map.empty \<and>
   localStorage (snd (reverseGeocode manhattan NotJson 120 fresh_world)) = Map.empty \<and>
   requests (snd (reverseGeocode manhattan Rejected 80
      (at_time 1717200009000 (snd (reverseGeocode manhattan NotJson 120 fresh_world))))) =
     [ReverseGeocodePrompt (lat manhattan) (lng manhattan),
      ReverseGeocodePrompt (lat manhattan) (lng manhattan)] \<and>
   cache (snd (geocodeLocation ''Paris'' NotJson 120 fresh_world)) = Map.empty \<and>
   localStorage (snd (geocodeLocation ''Paris'' NotJson 120 fresh_world)) = Map.empty \<and>
   requests (snd (geocodeLocation ''Paris'' Rejected 80
      (at_time 1717200009000 (snd (geocodeLocation ''Paris'' NotJson 120 fresh_world))))) =
     [GeocodePrompt ''Paris'', GeocodePrompt ''Paris'']"
proof -
  have a: "\<not> names_location NotJson" "\<not> has_coordinates NotJson"
    by (simp_all add: names_location_def has_coordinates_def)
  have b: "trim ''Paris'' \<noteq> []"
    by (simp add: trim_def is_space_def code_unit_def)
  have g: "getFromCache k fresh_world = (Inr JNull, fresh_world)" for k
    by (simp add: getFromCache_eq getFromLocalStorage_eq fresh_world_def)
  have m: "missed k fresh_world" for k
    by (simp add: missed_def g)
  have s: "stored_truthy k fresh_world" for k
    by (simp add: stored_truthy_def fresh_world_def)
  have e: "cache fresh_world = Map.empty" "localStorage fresh_world = Map.empty"
    "requests fresh_world = []"
    by (simp_all add: fresh_world_def)
  show ?thesis
    using a b m s e g
      failed_lookup_not_cached[of NotJson manhattan 120 fresh_world Rejected 80 1717200009000
        "''Paris''"]
    by simp
qed

end
